theory Spec2Isabelle
  imports Main "HOL-Library.Word" "HOL-Library.Multiset"
begin

section \<open>JavaScript strings\<close>

text \<open>
  A string is a list of code units.  The model covers the code units below 256 (Latin-1):
  \<open>char\<close> is a byte.  Within that range \<open>isSpace\<close> is the set that both
  \<open>String.prototype.trim\<close> and the regular expression class \<open>\s\<close> use, and
  \<open>toLowerCase\<close> is the Unicode lower-casing (A-Z and the accented capitals
  0xC0-0xDE without the multiplication sign 0xD7).
\<close>

definition isSpace :: "char \<Rightarrow> bool" where
  "isSpace c = (c \<in> set [CHR 0x09, CHR 0x0A, CHR 0x0B, CHR 0x0C, CHR 0x0D, CHR 0x20, CHR 0xA0])"

definition trim :: "string \<Rightarrow> string" where
  "trim s = rev (dropWhile isSpace (rev (dropWhile isSpace s)))"

definition upperChars :: "char list" where
  "upperChars = ''ABCDEFGHIJKLMNOPQRSTUVWXYZ'' @
     [CHR 0xC0, CHR 0xC1, CHR 0xC2, CHR 0xC3, CHR 0xC4, CHR 0xC5, CHR 0xC6, CHR 0xC7,
      CHR 0xC8, CHR 0xC9, CHR 0xCA, CHR 0xCB, CHR 0xCC, CHR 0xCD, CHR 0xCE, CHR 0xCF,
      CHR 0xD0, CHR 0xD1, CHR 0xD2, CHR 0xD3, CHR 0xD4, CHR 0xD5, CHR 0xD6,
      CHR 0xD8, CHR 0xD9, CHR 0xDA, CHR 0xDB, CHR 0xDC, CHR 0xDD, CHR 0xDE]"

definition lowerChars :: "char list" where
  "lowerChars = ''abcdefghijklmnopqrstuvwxyz'' @
     [CHR 0xE0, CHR 0xE1, CHR 0xE2, CHR 0xE3, CHR 0xE4, CHR 0xE5, CHR 0xE6, CHR 0xE7,
      CHR 0xE8, CHR 0xE9, CHR 0xEA, CHR 0xEB, CHR 0xEC, CHR 0xED, CHR 0xEE, CHR 0xEF,
      CHR 0xF0, CHR 0xF1, CHR 0xF2, CHR 0xF3, CHR 0xF4, CHR 0xF5, CHR 0xF6,
      CHR 0xF8, CHR 0xF9, CHR 0xFA, CHR 0xFB, CHR 0xFC, CHR 0xFD, CHR 0xFE]"

definition lowerChar :: "char \<Rightarrow> char" where
  "lowerChar c = (case map_of (zip upperChars lowerChars) c of None \<Rightarrow> c | Some d \<Rightarrow> d)"

definition toLowerCase :: "string \<Rightarrow> string" where
  "toLowerCase s = map lowerChar s"

definition startsWith :: "string \<Rightarrow> string \<Rightarrow> bool" where
  "startsWith s p = (take (length p) s = p)"

definition endsWith :: "string \<Rightarrow> string \<Rightarrow> bool" where
  "endsWith s p = (length p \<le> length s \<and> drop (length s - length p) s = p)"

text \<open>\<open>s.includes(sub)\<close>: \<open>sub\<close> occurs in \<open>s\<close> as a contiguous substring.\<close>

fun includesStr :: "string \<Rightarrow> string \<Rightarrow> bool" where
  "includesStr [] sub = (sub = [])"
| "includesStr (x # xs) sub = (startsWith (x # xs) sub \<or> includesStr xs sub)"

text \<open>\<open>s.split(c)\<close> for a separator of one character: never the empty array.\<close>

fun split_on :: "char \<Rightarrow> string \<Rightarrow> string list" where
  "split_on c [] = [[]]"
| "split_on c (x # xs) =
     (if x = c then [] # split_on c xs
      else (let r = split_on c xs in (x # hd r) # tl r))"

text \<open>\<open>s.split(/\s+/)\<close>: the separators are the maximal runs of white space.\<close>

function split_ws :: "string \<Rightarrow> string list" where
  "split_ws [] = [[]]"
| "split_ws (x # xs) =
     (if isSpace x then [] # split_ws (dropWhile isSpace xs)
      else (let r = split_ws xs in (x # hd r) # tl r))"
  by pat_completeness auto
termination
  by (relation "measure length") (auto simp: less_Suc_eq_le length_dropWhile_le)

text \<open>\<open>xs.join(sep)\<close>.\<close>

fun joinWith :: "string \<Rightarrow> string list \<Rightarrow> string" where
  "joinWith sep [] = []"
| "joinWith sep [x] = x"
| "joinWith sep (x # y # zs) = x @ sep @ joinWith sep (y # zs)"

text \<open>The decimal numeral that a template literal prints for a non-negative integer.\<close>

fun natToString :: "nat \<Rightarrow> string" where
  "natToString n =
     (if n < 10 then [''0123456789'' ! n]
      else natToString (n div 10) @ [''0123456789'' ! (n mod 10)])"

declare natToString.simps [simp del]

section \<open>Settings and the code block of the note\<close>

record ForFixSakeSettings =
  githubToken :: string
  defaultKeywords :: "string list"
  cacheEnabled :: bool
  cacheExpiry :: int
  tempDir :: string

text \<open>The three variables the code block processor of \<open>onload\<close> fills in.\<close>

record block =
  blockRepo :: string
  blockKeywords :: "string list"
  blockForceApi :: bool

text \<open>
  The loop over the lines of the block in the variant with the local search and the cache
  (the \<open>onload\<close> that knows \<open>force-api:\<close>).  \<open>line.substring('repo:'.length)\<close> drops
  5 code units, \<open>'keywords:'.length\<close> is 9 and \<open>'force-api:'.length\<close> is 10.
\<close>

fun parseLines :: "block \<Rightarrow> string list \<Rightarrow> block" where
  "parseLines b [] = b"
| "parseLines b (l # ls) =
     parseLines
       (if startsWith l ''repo:'' then b\<lparr>blockRepo := trim (drop 5 l)\<rparr>
        else if startsWith l ''keywords:'' then
          (let keywordString = trim (drop 9 l)
           in b\<lparr>blockKeywords := split_ws keywordString\<rparr>)
        else if startsWith l ''force-api:'' then
          (let forceApiString = toLowerCase (trim (drop 10 l))
           in b\<lparr>blockForceApi := (forceApiString = ''true'')\<rparr>)
        else b) ls"

definition parseBlock :: "ForFixSakeSettings \<Rightarrow> string \<Rightarrow> block" where
  "parseBlock s source =
     parseLines \<lparr>blockRepo = [], blockKeywords = defaultKeywords s, blockForceApi = False\<rparr>
       (split_on (CHR 0x0A) source)"

text \<open>
  The same loop in \<open>src/main.ts\<close>, the variant that only knows the remote fetch: it removes
  the comment, \<open>keywordString.split('#')[0].trim()\<close>, before it splits the keywords.
\<close>

fun parseLines_main :: "block \<Rightarrow> string list \<Rightarrow> block" where
  "parseLines_main b [] = b"
| "parseLines_main b (l # ls) =
     parseLines_main
       (if startsWith l ''repo:'' then b\<lparr>blockRepo := trim (drop 5 l)\<rparr>
        else if startsWith l ''keywords:'' then
          (let keywordString = trim (drop 9 l);
               withoutComments = trim (hd (split_on (CHR ''#'') keywordString))
           in b\<lparr>blockKeywords := split_ws withoutComments\<rparr>)
        else b) ls"

definition parseBlock_main :: "ForFixSakeSettings \<Rightarrow> string \<Rightarrow> block" where
  "parseBlock_main s source =
     parseLines_main \<lparr>blockRepo = [], blockKeywords = defaultKeywords s, blockForceApi = False\<rparr>
       (split_on (CHR 0x0A) source)"

section \<open>Data of the plugin\<close>

text \<open>
  One element of the \<open>results\<close> array of either search, with the keys \<open>file\<close>,
  \<open>line\<close>, \<open>content\<close> and \<open>url\<close>.
\<close>

record issue =
  issueFile :: string
  issueLine :: nat
  issueContent :: string
  issueUrl :: string

text \<open>
  \<open>CacheEntry.data\<close> has the type \<open>any\<close>: the code stores arrays of issues in it and
  compares it with \<open>true\<close>.
\<close>

datatype cacheData = Flag bool | Issues "issue list"

record CacheEntry =
  timestamp :: int
  data :: cacheData

record RepoCache =
  latestCommit :: string
  downloadPath :: string
  extractPath :: string
  repoTimestamp :: int

record plugin =
  settings :: ForFixSakeSettings
  cache :: "string \<rightharpoonup> CacheEntry"
  repoCache :: "string \<rightharpoonup> RepoCache"

datatype error =
    InvalidFormat
  | RequestError int string
  | RateLimitExceeded
  | DownloadFailed int
  | InvalidZip string
  | TransportError string
  | ExtractFailed string
  | FsError string

section \<open>The world outside the plugin\<close>

text \<open>
  The file system maps the paths that the plugin addresses to nodes; a directory node
  carries its subtree, which is what \<open>walkDir\<close> walks.  \<open>Special\<close> is a node that is
  neither a regular file nor a directory.
\<close>

type_synonym byte = "8 word"

datatype fsnode = File "byte list" | Dir "(string \<times> fsnode) list" | Special

text \<open>
  The calls that leave the plugin: the three REST requests of Octokit, the HTTPS request of
  \<open>downloadFile\<close> and the extraction of an archive.  \<open>trace\<close> records them in order;
  \<open>time\<close> is what \<open>Date.now()\<close> reads.
\<close>

datatype event =
    ReposGet string string
  | GetBranch string string string
  | GetContent string string string string
  | HttpsGet string "(string \<times> string) list"
  | ExtractAllTo string string

record world =
  trace :: "event list"
  time :: int
  fs :: "string \<rightharpoonup> fsnode"

datatype contentType = TypeDir | TypeFile | TypeSubmodule | TypeSymlink

record GitHubContent =
  ghType :: contentType
  ghSize :: nat
  ghName :: string
  ghPath :: string
  ghContent :: "string option"

datatype contents = Listing "GitHubContent list" | Single GitHubContent

record httpResponse =
  statusCode :: int
  location :: "string option"
  body :: "byte list"

text \<open>
  What \<open>https.get\<close> does with a URL: it throws at once (a URL that it cannot parse, such
  as a relative one), it emits \<open>error\<close>, or it delivers a response.
\<close>

datatype httpResult = Throws string | NetworkError string | Response httpResponse

text \<open>
  The collaborators are parameters: the answers of the remote API (for the credential that
  is configured) and of the archive host, the time a call takes, and the library functions
  \<open>path.join\<close>, \<open>path.relative\<close>, the base64 and UTF-8 decoders,
  \<open>AdmZip.extractAllTo\<close> (which returns the message of the error it throws, if any, and
  the file system it leaves) and \<open>fs.mkdirSync\<close> with \<open>recursive: true\<close> (which
  throws or returns the file system with the directory).
\<close>

record env =
  reposGet :: "string \<Rightarrow> string \<Rightarrow> error + string"
  getBranch :: "string \<Rightarrow> string \<Rightarrow> string \<Rightarrow> error + string"
  getContent :: "string \<Rightarrow> string \<Rightarrow> string \<Rightarrow> string \<Rightarrow> error + contents"
  httpsGet :: "string \<Rightarrow> (string \<times> string) list \<Rightarrow> httpResult"
  elapsed :: "event \<Rightarrow> int"
  pathJoin :: "string \<Rightarrow> string \<Rightarrow> string"
  pathRelative :: "string \<Rightarrow> string \<Rightarrow> string"
  base64Decode :: "string \<Rightarrow> string"
  utf8Decode :: "byte list \<Rightarrow> string"
  extractAllTo :: "byte list \<Rightarrow> string \<Rightarrow> (string \<rightharpoonup> fsnode) \<Rightarrow> string option \<times> (string \<rightharpoonup> fsnode)"
  mkdirSync :: "string \<Rightarrow> (string \<rightharpoonup> fsnode) \<Rightarrow> error + (string \<rightharpoonup> fsnode)"

definition request :: "env \<Rightarrow> event \<Rightarrow> world \<Rightarrow> world" where
  "request e ev w = w\<lparr>trace := trace w @ [ev], time := time w + elapsed e ev\<rparr>"

definition unlinkSync :: "string \<Rightarrow> world \<Rightarrow> world" where
  "unlinkSync pth w = w\<lparr>fs := (fs w)(pth := None)\<rparr>"

definition writeFile :: "string \<Rightarrow> byte list \<Rightarrow> world \<Rightarrow> world" where
  "writeFile pth bytes w = w\<lparr>fs := (fs w)(pth \<mapsto> File bytes)\<rparr>"

section \<open>The two scans of the lines of a file\<close>

text \<open>
  \<open>rest\<close> holds the lines after the line with index \<open>i\<close>, so \<open>i + 1 < lines.length\<close> is
  \<open>rest \<noteq> []\<close> and \<open>lines[i + 1]\<close> is its head.
\<close>

definition nextLine :: "string list \<Rightarrow> string" where
  "nextLine rest = (case rest of [] \<Rightarrow> [] | l # _ \<Rightarrow> CHR 0x0A # trim l)"

definition mkIssue :: "string \<Rightarrow> string \<Rightarrow> string \<Rightarrow> string \<Rightarrow> nat \<Rightarrow> string \<Rightarrow> string list \<Rightarrow> issue" where
  "mkIssue owner repoName branch pth i l rest =
     \<lparr>issueFile = pth, issueLine = i + 1, issueContent = trim l @ nextLine rest,
      issueUrl = ''https://github.com/'' @ owner @ ''/'' @ repoName @ ''/blob/'' @ branch @ ''/''
            @ pth @ ''#L'' @ natToString (i + 1)\<rparr>"

text \<open>The remote fetch: \<open>for (const keyword of keywords) if (line.includes(`${keyword}:`)) push\<close>.\<close>

fun remoteKeywords :: "issue \<Rightarrow> string \<Rightarrow> string list \<Rightarrow> issue list" where
  "remoteKeywords iss l [] = []"
| "remoteKeywords iss l (keyword # ks) =
     (if includesStr l (keyword @ '':'') then iss # remoteKeywords iss l ks
      else remoteKeywords iss l ks)"

fun remoteLines :: "string \<Rightarrow> string \<Rightarrow> string \<Rightarrow> string \<Rightarrow> string list \<Rightarrow> nat \<Rightarrow> string list \<Rightarrow> issue list" where
  "remoteLines owner repoName branch pth keywords i [] = []"
| "remoteLines owner repoName branch pth keywords i (l # rest) =
     remoteKeywords (mkIssue owner repoName branch pth i l rest) l keywords
     @ remoteLines owner repoName branch pth keywords (i + 1) rest"

text \<open>The local search: the same loop with a case-insensitive test and a \<open>break\<close>.\<close>

fun localKeywords :: "issue \<Rightarrow> string \<Rightarrow> string list \<Rightarrow> issue list" where
  "localKeywords iss l [] = []"
| "localKeywords iss l (keyword # ks) =
     (if includesStr (toLowerCase l) (toLowerCase keyword) then [iss]
      else localKeywords iss l ks)"

fun localLines :: "string \<Rightarrow> string \<Rightarrow> string \<Rightarrow> string \<Rightarrow> string list \<Rightarrow> nat \<Rightarrow> string list \<Rightarrow> issue list" where
  "localLines owner repoName branch pth keywords i [] = []"
| "localLines owner repoName branch pth keywords i (l # rest) =
     localKeywords (mkIssue owner repoName branch pth i l rest) l keywords
     @ localLines owner repoName branch pth keywords (i + 1) rest"

section \<open>The remote fetch\<close>

text \<open>
  \<open>file.name.match(/\.(js|jsx|...)$/i)\<close>: the name ends in a dot and one of the
  extensions, in either case.
\<close>

definition matchesExtension :: "string list \<Rightarrow> string \<Rightarrow> bool" where
  "matchesExtension exts name = list_ex (\<lambda>e. endsWith (toLowerCase name) (CHR ''.'' # e)) exts"

definition extensions_main :: "string list" where
  "extensions_main = [''js'', ''jsx'', ''ts'', ''tsx'', ''py'', ''java'', ''rb'', ''php'', ''c'',
     ''cpp'', ''h'', ''hpp'', ''cs'', ''go'', ''rs'', ''swift'', ''kt'', ''sh'', ''md'', ''txt'']"

definition extensions :: "string list" where
  "extensions = extensions_main @ [''ml'', ''mli'']"

text \<open>
  \<open>getFilesRecursively\<close> lists a directory of the repository and descends into each entry of
  type \<open>dir\<close>; \<open>collectFiles\<close> is its loop over the entries.  Nothing in the code bounds the
  descent, so the model counts it: the first argument is the number of nested listings that
  are allowed, and \<open>None\<close> says that they did not suffice.
\<close>

fun getFilesRecursively ::
    "nat \<Rightarrow> env \<Rightarrow> string \<Rightarrow> string \<Rightarrow> string \<Rightarrow> string \<Rightarrow> world
      \<Rightarrow> ((error + GitHubContent list) \<times> world) option"
  and collectFiles ::
    "nat \<Rightarrow> env \<Rightarrow> string \<Rightarrow> string \<Rightarrow> string \<Rightarrow> GitHubContent list \<Rightarrow> world
      \<Rightarrow> ((error + GitHubContent list) \<times> world) option" where
  "getFilesRecursively 0 e owner repoName branch pth w = None"
| "getFilesRecursively (Suc n) e owner repoName branch pth w =
     (let w1 = request e (GetContent owner repoName pth branch) w
      in case getContent e owner repoName pth branch of
           Inl err \<Rightarrow> Some (Inl err, w1)
         | Inr cs \<Rightarrow>
             collectFiles n e owner repoName branch
               (case cs of Listing items \<Rightarrow> items | Single item \<Rightarrow> [item]) w1)"
| "collectFiles n e owner repoName branch [] w = Some (Inr [], w)"
| "collectFiles n e owner repoName branch (item # items) w =
     (if ghType item = TypeDir then
        (case getFilesRecursively n e owner repoName branch (ghPath item) w of
           None \<Rightarrow> None
         | Some (Inl err, w1) \<Rightarrow> Some (Inl err, w1)
         | Some (Inr subFiles, w1) \<Rightarrow>
             (case collectFiles n e owner repoName branch items w1 of
                None \<Rightarrow> None
              | Some (Inl err, w2) \<Rightarrow> Some (Inl err, w2)
              | Some (Inr others, w2) \<Rightarrow> Some (Inr (subFiles @ others), w2)))
      else if ghType item = TypeFile then
        (case collectFiles n e owner repoName branch items w of
           None \<Rightarrow> None
         | Some (Inl err, w2) \<Rightarrow> Some (Inl err, w2)
         | Some (Inr others, w2) \<Rightarrow> Some (Inr (item # others), w2))
      else collectFiles n e owner repoName branch items w)"

text \<open>The loop \<open>for (const file of files)\<close> of \<open>fetchIssues\<close>.\<close>

fun processFiles ::
    "env \<Rightarrow> string list \<Rightarrow> string \<Rightarrow> string \<Rightarrow> string \<Rightarrow> string list \<Rightarrow> GitHubContent list
      \<Rightarrow> world \<Rightarrow> (error + issue list) \<times> world" where
  "processFiles e exts owner repoName branch keywords [] w = (Inr [], w)"
| "processFiles e exts owner repoName branch keywords (f # fls) w =
     (if ghSize f > 500000 \<or> \<not> matchesExtension exts (ghName f)
      then processFiles e exts owner repoName branch keywords fls w
      else
        (let w1 = request e (GetContent owner repoName (ghPath f) branch) w
         in case getContent e owner repoName (ghPath f) branch of
              Inl err \<Rightarrow> (Inl err, w1)
            | Inr (Listing items) \<Rightarrow> processFiles e exts owner repoName branch keywords fls w1
            | Inr (Single fileData) \<Rightarrow>
                (case ghContent fileData of
                   None \<Rightarrow> processFiles e exts owner repoName branch keywords fls w1
                 | Some encoded \<Rightarrow>
                     if encoded = [] then processFiles e exts owner repoName branch keywords fls w1
                     else
                       (let content = base64Decode e encoded;
                            lines = split_on (CHR 0x0A) content;
                            found = remoteLines owner repoName branch (ghPath f) keywords 0 lines
                        in case processFiles e exts owner repoName branch keywords fls w1 of
                             (Inl err, w2) \<Rightarrow> (Inl err, w2)
                           | (Inr others, w2) \<Rightarrow> (Inr (found @ others), w2)))))"

text \<open>
  \<open>fetchIssues\<close> from \<open>octokit.rest.repos.get\<close> to the end of the loop over the files: the
  part that talks to the remote API.  It reads and writes no field of the plugin.
\<close>

definition remoteSearch ::
    "nat \<Rightarrow> env \<Rightarrow> string list \<Rightarrow> string \<Rightarrow> string \<Rightarrow> string list \<Rightarrow> world
      \<Rightarrow> ((error + issue list) \<times> world) option" where
  "remoteSearch n e exts owner repoName keywords w =
     (let w1 = request e (ReposGet owner repoName) w
      in case reposGet e owner repoName of
           Inl err \<Rightarrow> Some (Inl err, w1)
         | Inr defaultBranch \<Rightarrow>
             (case getFilesRecursively n e owner repoName defaultBranch [] w1 of
                None \<Rightarrow> None
              | Some (Inl err, w2) \<Rightarrow> Some (Inl err, w2)
              | Some (Inr fls, w2) \<Rightarrow>
                  Some (processFiles e exts owner repoName defaultBranch keywords fls w2)))"

text \<open>
  \<open>const [owner, repoName] = repo.split('/')\<close>: an element that the array does not have is
  \<open>undefined\<close>, and \<open>!x\<close> holds of \<open>undefined\<close> and of the empty string.
\<close>

definition element :: "string list \<Rightarrow> nat \<Rightarrow> string option" where
  "element xs i = (if i < length xs then Some (xs ! i) else None)"

definition falsy :: "string option \<Rightarrow> bool" where
  "falsy x = (x = None \<or> x = Some [])"

definition cacheKeyOf :: "string \<Rightarrow> string list \<Rightarrow> string" where
  "cacheKeyOf repo keywords = repo @ ''-'' @ joinWith '','' keywords"

text \<open>\<open>fetchIssues\<close> of \<open>src/main.ts\<close>: no cache, any credential.\<close>

definition fetchIssues_main ::
    "nat \<Rightarrow> env \<Rightarrow> world \<Rightarrow> string \<Rightarrow> string list \<Rightarrow> ((error + issue list) \<times> world) option" where
  "fetchIssues_main n e w repo keywords =
     (let parts = split_on (CHR ''/'') repo; owner = element parts 0; repoName = element parts 1
      in if falsy owner \<or> falsy repoName then Some (Inl InvalidFormat, w)
         else remoteSearch n e extensions_main (the owner) (the repoName) keywords w)"

section \<open>Download and extraction of the archive\<close>

text \<open>
  \<open>Buffer.alloc(4)\<close> is four zero bytes and \<open>fs.readSync(fd, header, 0, 4, 0)\<close> overwrites
  as many of them as the file has; opening a path that is no regular file throws.
\<close>

definition readHeader :: "(string \<rightharpoonup> fsnode) \<Rightarrow> string \<Rightarrow> byte list option" where
  "readHeader f pth =
     (case f pth of Some (File bytes) \<Rightarrow> Some (take 4 (bytes @ [0, 0, 0, 0])) | _ \<Rightarrow> None)"

text \<open>
  \<open>downloadFile\<close> calls itself on a redirect, as often as the host redirects: the first
  argument counts the calls that are allowed, and \<open>None\<close> says that they did not
  suffice.  The content type only decides about a warning on the console.  When
  \<open>https.get\<close> throws, the promise is rejected and the file that
  \<open>fs.createWriteStream\<close> has just created stays, empty.  The write stream is taken to
  open: \<open>fetchIssuesLocally\<close> has made sure of the directory of the destination before
  it calls \<open>downloadFile\<close>.
\<close>

definition requestHeaders :: "string \<Rightarrow> (string \<times> string) list" where
  "requestHeaders token =
     (if token \<noteq> [] then
        [(''Authorization'', ''token '' @ token),
         (''User-Agent'', ''For-Fix-Sake-Obsidian-Plugin'')]
      else [(''User-Agent'', ''For-Fix-Sake-Obsidian-Plugin'')])"

fun downloadFile ::
    "nat \<Rightarrow> env \<Rightarrow> string \<Rightarrow> string \<Rightarrow> string \<Rightarrow> world \<Rightarrow> ((error + unit) \<times> world) option" where
  "downloadFile 0 e token u destination w = None"
| "downloadFile (Suc n) e token u destination w =
     (let headers = requestHeaders token;
          w1 = writeFile destination [] w;
          w2 = request e (HttpsGet u headers) w1
      in case httpsGet e u headers of
           Throws err \<Rightarrow> Some (Inl (TransportError err), w1)
         | NetworkError err \<Rightarrow> Some (Inl (TransportError err), unlinkSync destination w2)
         | Response response \<Rightarrow>
             if (statusCode response = 302 \<or> statusCode response = 301)
                \<and> \<not> falsy (location response)
             then downloadFile n e token (the (location response)) destination w2
             else if statusCode response \<noteq> 200
             then Some (Inl (DownloadFailed (statusCode response)), unlinkSync destination w2)
             else
               (let w3 = writeFile destination (body response) w2
                in case readHeader (fs w3) destination of
                     None \<Rightarrow> Some (Inl (InvalidZip ''ENOENT''), unlinkSync destination w3)
                   | Some header \<Rightarrow>
                       if header ! 0 \<noteq> 0x50 \<or> header ! 1 \<noteq> 0x4B
                          \<or> header ! 2 \<noteq> 0x03 \<or> header ! 3 \<noteq> 0x04
                       then Some (Inl (InvalidZip ''Not a valid ZIP file (missing PK signature)''),
                                  unlinkSync destination w3)
                       else Some (Inr (), w3)))"

definition extractZip :: "env \<Rightarrow> string \<Rightarrow> string \<Rightarrow> world \<Rightarrow> (error + unit) \<times> world" where
  "extractZip e zipPath destPath w =
     (case fs w zipPath of
        None \<Rightarrow> (Inl (ExtractFailed (''ZIP file not found: '' @ zipPath)), w)
      | Some (File bytes) \<Rightarrow>
          if length bytes < 100
          then (Inl (ExtractFailed (''ZIP file is too small ('' @ natToString (length bytes)
                                    @ '' bytes)'')), w)
          else
            (let w1 = request e (ExtractAllTo zipPath destPath) w;
                 (thrown, f) = extractAllTo e bytes destPath (fs w1);
                 w2 = w1\<lparr>fs := f\<rparr>
             in case thrown of
                  None \<Rightarrow> (Inr (), w2)
                | Some message \<Rightarrow>
                    if includesStr message ''Invalid LOC header''
                    then (Inl (ExtractFailed ''ZIP file is corrupted or invalid (Invalid LOC header)''), w2)
                    else if includesStr message ''Invalid central directory''
                    then (Inl (ExtractFailed ''ZIP file is corrupted (Invalid central directory)''), w2)
                    else (Inl (ExtractFailed message), w2))
      | Some _ \<Rightarrow> (Inl (ExtractFailed (''not a regular file: '' @ zipPath)), w))"

section \<open>The local search\<close>

fun walkDir :: "env \<Rightarrow> string \<Rightarrow> (string \<times> fsnode) list \<Rightarrow> (string \<times> byte list) list" where
  "walkDir e d [] = []"
| "walkDir e d ((item, node) # items) =
     (let itemPath = pathJoin e d item
      in (case node of
            Dir sub \<Rightarrow>
              if \<not> startsWith item ''.'' \<and> item \<noteq> ''node_modules'' then
                (if item \<in> set [''node_modules'', ''.git'', ''build'', ''dist'', ''target''] then []
                 else walkDir e itemPath sub)
              else []
          | File bytes \<Rightarrow> [(itemPath, bytes)]
          | Special \<Rightarrow> [])
         @ walkDir e d items)"

text \<open>\<open>/[\x00-\x08\x0B\x0C\x0E-\x1F\x7F]{50,}/.test(content)\<close>: a run of 50 such characters.\<close>

definition isControl :: "char \<Rightarrow> bool" where
  "isControl c = (c \<in> set
     [CHR 0x00, CHR 0x01, CHR 0x02, CHR 0x03, CHR 0x04, CHR 0x05, CHR 0x06, CHR 0x07, CHR 0x08,
      CHR 0x0B, CHR 0x0C, CHR 0x0E, CHR 0x0F, CHR 0x10, CHR 0x11, CHR 0x12, CHR 0x13, CHR 0x14,
      CHR 0x15, CHR 0x16, CHR 0x17, CHR 0x18, CHR 0x19, CHR 0x1A, CHR 0x1B, CHR 0x1C, CHR 0x1D,
      CHR 0x1E, CHR 0x1F, CHR 0x7F])"

fun controlRun :: "nat \<Rightarrow> string \<Rightarrow> bool" where
  "controlRun k [] = (50 \<le> k)"
| "controlRun k (c # cs) = (50 \<le> k \<or> (if isControl c then controlRun (k + 1) cs else controlRun 0 cs))"

text \<open>The body of \<open>for (const file of files)\<close> of \<open>fetchIssuesLocally\<close>, for one file.\<close>

definition scanFile ::
    "env \<Rightarrow> string \<Rightarrow> string \<Rightarrow> string \<Rightarrow> string \<Rightarrow> string list \<Rightarrow> string \<times> byte list \<Rightarrow> issue list" where
  "scanFile e searchDir owner repoName branch keywords f =
     (if length (snd f) > 500000 then []
      else
        (let content = utf8Decode e (snd f)
         in if includesStr content [CHR 0x00] \<or> controlRun 0 content then []
            else
              (let lines = split_on (CHR 0x0A) content;
                   relativePath = map (\<lambda>c. if c = CHR 0x5C then CHR ''/'' else c)
                                    (pathRelative e searchDir (fst f))
               in localLines owner repoName branch relativePath keywords 0 lines)))"

definition archiveUrl :: "string \<Rightarrow> string \<Rightarrow> string \<Rightarrow> string" where
  "archiveUrl owner repoName defaultBranch =
     ''https://github.com/'' @ owner @ ''/'' @ repoName @ ''/archive/'' @ defaultBranch @ ''.zip''"

text \<open>
  From the test of \<open>this.repoCache[repo]\<close> to the update of the repo cache: the archive is
  downloaded and extracted unless the recorded commit is the one just read from the branch.
\<close>

definition ensureSnapshot ::
    "nat \<Rightarrow> env \<Rightarrow> plugin \<Rightarrow> world \<Rightarrow> string \<Rightarrow> string \<Rightarrow> string \<Rightarrow> string \<Rightarrow> string \<Rightarrow> string
      \<Rightarrow> ((error + unit) \<times> plugin \<times> world) option" where
  "ensureSnapshot n e p w repo owner repoName defaultBranch repoDir commit =
     (if (case repoCache p repo of None \<Rightarrow> False | Some rc \<Rightarrow> latestCommit rc = commit)
      then Some (Inr (), p, w)
      else
        (let downloadUrl = archiveUrl owner repoName defaultBranch;
             dlPath = pathJoin e repoDir (repoName @ ''-'' @ defaultBranch @ ''.zip'');
             exPath = pathJoin e repoDir (repoName @ ''-'' @ defaultBranch)
         in case downloadFile n e (githubToken (settings p)) downloadUrl dlPath w of
              None \<Rightarrow> None
            | Some (Inl err, w1) \<Rightarrow> Some (Inl err, p, w1)
            | Some (Inr u, w1) \<Rightarrow>
                (case extractZip e dlPath repoDir w1 of
                   (Inl err, w2) \<Rightarrow> Some (Inl err, p, w2)
                 | (Inr v, w2) \<Rightarrow>
                     Some (Inr (),
                           p\<lparr>repoCache := (repoCache p)(repo \<mapsto>
                                \<lparr>latestCommit = commit, downloadPath = dlPath,
                                 extractPath = exPath, repoTimestamp = time w2\<rparr>)\<rparr>,
                           w2))))"

text \<open>The search of the extracted tree; \<open>fs.readdirSync\<close> throws unless the path is a directory.\<close>

definition scanSnapshot ::
    "env \<Rightarrow> world \<Rightarrow> string \<Rightarrow> string \<Rightarrow> string \<Rightarrow> string \<Rightarrow> string list \<Rightarrow> error + issue list" where
  "scanSnapshot e w owner repoName defaultBranch repoDir keywords =
     (let searchDir = pathJoin e repoDir (repoName @ ''-'' @ defaultBranch)
      in case fs w searchDir of
           Some (Dir items) \<Rightarrow>
             Inr (concat (map (scanFile e searchDir owner repoName defaultBranch keywords)
                            (walkDir e searchDir items)))
         | _ \<Rightarrow> Inl (FsError (''ENOENT: '' @ searchDir)))"

text \<open>
  The directory of the repository below the directory of the settings, and
  \<open>if (!fs.existsSync(repoDir)) fs.mkdirSync(repoDir, { recursive: true })\<close>, which throws
  when the directory cannot be created.
\<close>

definition repoDirOf :: "env \<Rightarrow> plugin \<Rightarrow> string \<Rightarrow> string \<Rightarrow> string" where
  "repoDirOf e p owner repoName = pathJoin e (tempDir (settings p)) (owner @ ''-'' @ repoName)"

definition ensureDir :: "env \<Rightarrow> string \<Rightarrow> world \<Rightarrow> error + world" where
  "ensureDir e d w =
     (if fs w d = None then
        (case mkdirSync e d (fs w) of Inl err \<Rightarrow> Inl err | Inr f \<Rightarrow> Inr (w\<lparr>fs := f\<rparr>))
      else Inr w)"

text \<open>\<open>fetchIssuesLocally\<close> from the creation of the directory of the repo to the scan.\<close>

definition localSearch ::
    "nat \<Rightarrow> env \<Rightarrow> plugin \<Rightarrow> world \<Rightarrow> string \<Rightarrow> string \<Rightarrow> string \<Rightarrow> string list
      \<Rightarrow> ((error + issue list) \<times> plugin \<times> world) option" where
  "localSearch n e p w repo owner repoName keywords =
     (let repoDir = repoDirOf e p owner repoName
      in case ensureDir e repoDir w of
           Inl err \<Rightarrow> Some (Inl err, p, w)
         | Inr w0 \<Rightarrow>
             (let w1 = request e (ReposGet owner repoName) w0
              in case reposGet e owner repoName of
                   Inl err \<Rightarrow> Some (Inl err, p, w1)
                 | Inr defaultBranch \<Rightarrow>
                     (let w2 = request e (GetBranch owner repoName defaultBranch) w1
                      in case getBranch e owner repoName defaultBranch of
                           Inl err \<Rightarrow> Some (Inl err, p, w2)
                         | Inr commit \<Rightarrow>
                             (case ensureSnapshot n e p w2 repo owner repoName defaultBranch
                                     repoDir commit of
                                None \<Rightarrow> None
                              | Some (Inl err, p1, w3) \<Rightarrow> Some (Inl err, p1, w3)
                              | Some (Inr u, p1, w3) \<Rightarrow>
                                  Some (scanSnapshot e w3 owner repoName defaultBranch repoDir
                                          keywords,
                                        p1, w3)))))"

text \<open>
  The test that both functions make of a cache entry, \<open>now - timestamp < expiryTime\<close>,
  and their lookup of the results: the payload of the entry under the key if caching is
  enabled, the entry exists and has not expired.
\<close>

definition unexpired :: "plugin \<Rightarrow> world \<Rightarrow> CacheEntry \<Rightarrow> bool" where
  "unexpired p w entry = (time w - timestamp entry < cacheExpiry (settings p) * 60 * 1000)"

definition cached :: "plugin \<Rightarrow> world \<Rightarrow> string \<Rightarrow> cacheData option" where
  "cached p w cacheKey =
     (if cacheEnabled (settings p) then
        (case cache p cacheKey of
           None \<Rightarrow> None
         | Some entry \<Rightarrow> if unexpired p w entry then Some (data entry) else None)
      else None)"

text \<open>The test of the entry that marks a repository as rate limited.\<close>

definition rateLimited :: "plugin \<Rightarrow> world \<Rightarrow> string \<Rightarrow> bool" where
  "rateLimited p w rateLimitKey =
     (cacheEnabled (settings p)
      \<and> (case cache p rateLimitKey of
           None \<Rightarrow> False
         | Some entry \<Rightarrow> data entry = Flag True \<and> unexpired p w entry))"

definition store :: "plugin \<Rightarrow> world \<Rightarrow> string \<Rightarrow> issue list \<Rightarrow> plugin" where
  "store p w cacheKey results =
     (if cacheEnabled (settings p)
      then p\<lparr>cache := (cache p)(cacheKey \<mapsto> \<lparr>timestamp = time w, data = Issues results\<rparr>)\<rparr>
      else p)"

definition fetchIssuesLocally ::
    "nat \<Rightarrow> env \<Rightarrow> plugin \<Rightarrow> world \<Rightarrow> string \<Rightarrow> string list
      \<Rightarrow> ((error + cacheData) \<times> plugin \<times> world) option" where
  "fetchIssuesLocally n e p w repo keywords =
     (let parts = split_on (CHR ''/'') repo; owner = element parts 0; repoName = element parts 1
      in if falsy owner \<or> falsy repoName then Some (Inl InvalidFormat, p, w)
         else
           (let cacheKey = cacheKeyOf repo keywords
            in case cached p w cacheKey of
                 Some payload \<Rightarrow> Some (Inr payload, p, w)
               | None \<Rightarrow>
                 (case localSearch n e p w repo (the owner) (the repoName) keywords of
                    None \<Rightarrow> None
                  | Some (Inl err, p1, w1) \<Rightarrow> Some (Inl err, p1, w1)
                  | Some (Inr results, p1, w1) \<Rightarrow>
                      Some (Inr (Issues results), store p1 w1 cacheKey results, w1))))"

definition fetchIssues ::
    "nat \<Rightarrow> env \<Rightarrow> plugin \<Rightarrow> world \<Rightarrow> string \<Rightarrow> string list
      \<Rightarrow> ((error + cacheData) \<times> plugin \<times> world) option" where
  "fetchIssues n e p w repo keywords =
     (let rateLimitKey = ''ratelimit-'' @ repo
      in if rateLimited p w rateLimitKey then
           (case fetchIssuesLocally n e p w repo keywords of
              None \<Rightarrow> None
            | Some (Inl localError, p1, w1) \<Rightarrow> Some (Inl RateLimitExceeded, p1, w1)
            | Some (Inr found, p1, w1) \<Rightarrow> Some (Inr found, p1, w1))
         else
           (let cacheKey = cacheKeyOf repo keywords
            in case cached p w cacheKey of
                 Some payload \<Rightarrow> Some (Inr payload, p, w)
               | None \<Rightarrow>
                 (let parts = split_on (CHR ''/'') repo;
                      owner = element parts 0; repoName = element parts 1
                  in if falsy owner \<or> falsy repoName then Some (Inl InvalidFormat, p, w)
                     else
                       (case remoteSearch n e extensions (the owner) (the repoName) keywords w of
                          None \<Rightarrow> None
                        | Some (Inl err, w1) \<Rightarrow> Some (Inl err, p, w1)
                        | Some (Inr results, w1) \<Rightarrow>
                            Some (Inr (Issues results), store p w1 cacheKey results, w1)))))"

section \<open>The code block processor\<close>

text \<open>
  What the processor registered in \<open>onload\<close> shows: the message that no repository is
  specified, the issues that it hands to \<open>renderIssues\<close>, or the error that it caught.
\<close>

datatype outcome = NoRepository | Rendered cacheData | Failed error

definition processBlock ::
    "nat \<Rightarrow> env \<Rightarrow> plugin \<Rightarrow> world \<Rightarrow> string \<Rightarrow> (outcome \<times> plugin \<times> world) option" where
  "processBlock n e p w source =
     (let b = parseBlock (settings p) source
      in if blockRepo b = [] then Some (NoRepository, p, w)
         else if \<not> blockForceApi b then
           (case fetchIssuesLocally n e p w (blockRepo b) (blockKeywords b) of
              None \<Rightarrow> None
            | Some (Inr found, p1, w1) \<Rightarrow> Some (Rendered found, p1, w1)
            | Some (Inl localError, p1, w1) \<Rightarrow>
                (case fetchIssues n e p1 w1 (blockRepo b) (blockKeywords b) of
                   None \<Rightarrow> None
                 | Some (Inr found, p2, w2) \<Rightarrow> Some (Rendered found, p2, w2)
                 | Some (Inl err, p2, w2) \<Rightarrow> Some (Failed err, p2, w2)))
         else
           (case fetchIssues n e p w (blockRepo b) (blockKeywords b) of
              None \<Rightarrow> None
            | Some (Inr found, p2, w2) \<Rightarrow> Some (Rendered found, p2, w2)
            | Some (Inl err, p2, w2) \<Rightarrow> Some (Failed err, p2, w2)))"

section \<open>A concrete repository\<close>

text \<open>
  The repository \<open>octo/demo\<close> with the default branch \<open>main\<close> and one file,
  \<open>src/a.py\<close>; the library functions are stand-ins on the few values that occur.
\<close>

definition demoSettings :: ForFixSakeSettings where
  "demoSettings = \<lparr>githubToken = [], defaultKeywords = [''TODO'', ''FIXME''],
     cacheEnabled = True, cacheExpiry = 60, tempDir = ''/tmp''\<rparr>"

definition demoPlugin :: plugin where
  "demoPlugin = \<lparr>settings = demoSettings, cache = Map.empty, repoCache = Map.empty\<rparr>"

definition demoWorld :: world where
  "demoWorld = \<lparr>trace = [], time = 0, fs = Map.empty\<rparr>"

definition demoSource :: string where
  "demoSource = ''# TODO: fix parser'' @ [CHR 0x0A] @ ''return None''"

definition demoFile :: GitHubContent where
  "demoFile = \<lparr>ghType = TypeFile, ghSize = 30, ghName = ''a.py'', ghPath = ''src/a.py'',
     ghContent = Some ''IyBUT0RPOiBmaXggcGFyc2VyCnJldHVybiBOb25l''\<rparr>"

definition demoDir :: GitHubContent where
  "demoDir = \<lparr>ghType = TypeDir, ghSize = 0, ghName = ''src'', ghPath = ''src'',
     ghContent = None\<rparr>"

definition demoBytes :: "byte list" where
  "demoBytes = [0x74, 0x6F, 0x64, 0x6F]"

definition demoArchive :: "byte list" where
  "demoArchive = [0x50, 0x4B, 0x03, 0x04] @ replicate 100 0"

definition demoEnv :: env where
  "demoEnv =
     \<lparr>reposGet = (\<lambda>owner repoName.
        if owner = ''octo'' \<and> repoName = ''demo'' then Inr ''main''
        else Inl (RequestError 404 ''Not Found'')),
      getBranch = (\<lambda>owner repoName branch. Inr ''c0ffee''),
      getContent = (\<lambda>owner repoName pth branch.
        if pth = [] then Inr (Listing [demoDir])
        else if pth = ''src'' then Inr (Listing [demoFile])
        else if pth = ''src/a.py'' then Inr (Single demoFile)
        else Inl (RequestError 404 ''Not Found'')),
      httpsGet = (\<lambda>u headers. Response \<lparr>statusCode = 200, location = None, body = demoArchive\<rparr>),
      elapsed = (\<lambda>ev. 1),
      pathJoin = (\<lambda>a b. a @ ''/'' @ b),
      pathRelative = (\<lambda>a b. drop (length a + 1) b),
      base64Decode = (\<lambda>encoded. demoSource),
      utf8Decode = (\<lambda>bytes. if bytes = demoBytes then ''todo fix parser'' else []),
      extractAllTo = (\<lambda>bytes dest f.
        (None, f(dest @ ''/demo-main'' \<mapsto> Dir [(''a.py'', File demoBytes)]))),
      mkdirSync = (\<lambda>d f. Inr (f(d \<mapsto> Dir [])))\<rparr>"

text \<open>The same host when the quota of the API is exhausted.\<close>

definition limitedEnv :: env where
  "limitedEnv = demoEnv\<lparr>reposGet := (\<lambda>owner repoName.
     Inl (RequestError 403 ''API rate limit exceeded''))\<rparr>"



text \<open>A plugin that has the snapshot of the commit \<open>c0ffee\<close>.\<close>

definition snapshotDemo :: plugin where
  "snapshotDemo = demoPlugin\<lparr>repoCache := [''octo/demo'' \<mapsto>
     \<lparr>latestCommit = ''c0ffee'', downloadPath = ''/tmp/octo-demo/demo-main.zip'',
      extractPath = ''/tmp/octo-demo/demo-main'', repoTimestamp = 0\<rparr>]\<rparr>"

text \<open>A host that answers the download with a page of HTML.\<close>

definition htmlEnv :: env where
  "htmlEnv = demoEnv\<lparr>httpsGet := (\<lambda>u headers.
     Response \<lparr>statusCode = 200, location = None, body = [0x3C, 0x68, 0x74, 0x6D, 0x6C, 0x3E]\<rparr>)\<rparr>"



section \<open>Hosts that let a search return\<close>



section \<open>Reading the trace\<close>

text \<open>
  Either search starts with one request for the repository, \<open>octokit.rest.repos.get\<close>;
  \<open>quiet w w'\<close> says that the world went from \<open>w\<close> to \<open>w'\<close> without such a request.
\<close>

fun isReposGet :: "event \<Rightarrow> bool" where
  "isReposGet (ReposGet owner repoName) = True"
| "isReposGet ev = False"

definition quiet :: "world \<Rightarrow> world \<Rightarrow> bool" where
  "quiet w w' = (\<exists>evs. trace w' = trace w @ evs \<and> filter isReposGet evs = [])"

section \<open>The key of the result cache\<close>

lemma split_on_without: "c \<notin> set x \<Longrightarrow> split_on c x = [x]"
  by (induction x) auto

lemma split_on_append: "c \<notin> set x \<Longrightarrow> split_on c (x @ c # rest) = x # split_on c rest"
  by (induction x) auto

lemma split_on_joinWith:
  "\<forall>k \<in> set kws. c \<notin> set k \<Longrightarrow> kws \<noteq> [] \<Longrightarrow> split_on c (joinWith [c] kws) = kws"
proof (induction "[c]" kws rule: joinWith.induct)
  case 1
  then show ?case by simp
next
  case (2 x)
  then show ?case by (simp add: split_on_without)
next
  case (3 x y zs)
  then show ?case by (simp add: split_on_append)
qed

text \<open>
  C3, as the code has it.  The key is the repository identifier, a hyphen and the keywords
  joined by commas in the order of the request; nothing sorts them.  For non-empty keyword
  lists without a comma in any keyword, two requests for one repository have the same key
  exactly when their keyword lists are equal element by element.
\<close>

theorem cacheKey_follows_order:
  assumes "\<forall>k \<in> set kws \<union> set kws'. CHR '','' \<notin> set k" and "kws \<noteq> []" and "kws' \<noteq> []"
  shows "(cacheKeyOf repo kws = cacheKeyOf repo kws') = (kws = kws')"
proof
  assume "cacheKeyOf repo kws = cacheKeyOf repo kws'"
  then have "joinWith '','' kws = joinWith '','' kws'"
    by (simp add: cacheKeyOf_def)
  then have "split_on (CHR '','') (joinWith '','' kws) = split_on (CHR '','') (joinWith '','' kws')"
    by simp
  with assms show "kws = kws'"
    by (simp add: split_on_joinWith)
next
  assume "kws = kws'"
  then show "cacheKeyOf repo kws = cacheKeyOf repo kws'" by simp
qed

theorem cacheKey_follows_order_witness:
  "(cacheKeyOf ''octo/demo'' [''TODO'', ''BUG''] = cacheKeyOf ''octo/demo'' [''BUG'', ''TODO''])
     = ([''TODO'', ''BUG''] = [''BUG'', ''TODO''])"
proof -
  have h: "\<forall>k \<in> set [''TODO'', ''BUG''] \<union> set [''BUG'', ''TODO'']. CHR '','' \<notin> set k"
    by simp
  show ?thesis
    using cacheKey_follows_order [OF h, where repo = "''octo/demo''"] by simp
qed

text \<open>
  C3, as the spec states it, fails: the keyword lists \<open>TODO FIXME\<close> and \<open>FIXME TODO\<close>
  are permutations of one another and have different keys.
\<close>

theorem cacheKey_permutation_counterexample:
  "mset [''TODO'', ''FIXME''] = mset [''FIXME'', ''TODO'']
   \<and> cacheKeyOf ''octo/demo'' [''TODO'', ''FIXME'']
       \<noteq> cacheKeyOf ''octo/demo'' [''FIXME'', ''TODO'']"
  by (simp add: cacheKeyOf_def)

section \<open>The keywords of the code block\<close>

text \<open>
  C4 fails in the variant with the local search: its \<open>onload\<close> splits the whole rest of the
  \<open>keywords:\<close> line, so the \<open>#\<close> and the words of the comment become keywords.
\<close>

theorem parseBlock_keeps_comment:
  "blockKeywords
     (parseBlock s (''repo: octo/demo'' @ [CHR 0x0A] @ ''keywords: TODO FIXME # optional''))
   = [''TODO'', ''FIXME'', ''#'', ''optional'']"
  by (simp add: parseBlock_def startsWith_def trim_def isSpace_def)

text \<open>\<open>src/main.ts\<close> removes the comment from the same block.\<close>

lemma parseBlock_main_drops_comment:
  "blockKeywords
     (parseBlock_main s (''repo: octo/demo'' @ [CHR 0x0A] @ ''keywords: TODO FIXME # optional''))
   = [''TODO'', ''FIXME'']"
  by (simp add: parseBlock_main_def startsWith_def trim_def isSpace_def)

section \<open>The scans of a line\<close>

lemma remoteKeywords_replicate:
  "remoteKeywords iss l kws
     = replicate (length (filter (\<lambda>k. includesStr l (k @ '':'')) kws)) iss"
  by (induction kws) auto

lemma localKeywords_first:
  "localKeywords iss l kws
     = (if \<exists>k \<in> set kws. includesStr (toLowerCase l) (toLowerCase k) then [iss] else [])"
  by (induction kws) auto

lemma localLines_range:
  "iss \<in> set (localLines owner repoName branch pth kws i lines)
     \<Longrightarrow> i < issueLine iss \<and> issueLine iss \<le> i + length lines"
proof (induction lines arbitrary: i)
  case Nil
  then show ?case by simp
next
  case (Cons l rest)
  then show ?case
    by (fastforce simp: localKeywords_first mkIssue_def split: if_splits)
qed

lemma localLines_distinct:
  "distinct (map issueLine (localLines owner repoName branch pth kws i lines))"
proof (induction lines arbitrary: i)
  case Nil
  then show ?case by simp
next
  case (Cons l rest)
  have "Suc i \<notin> issueLine ` set (localLines owner repoName branch pth kws (i + 1) rest)"
    using localLines_range [of _ owner repoName branch pth kws "i + 1" rest] by fastforce
  with Cons.IH [of "i + 1"] show ?case
    by (simp add: localKeywords_first mkIssue_def)
qed

lemma scanFile_distinct:
  "distinct (map issueLine (scanFile e searchDir owner repoName branch kws f))"
  by (simp add: scanFile_def Let_def localLines_distinct)

text \<open>
  C5.  A line that contains a configured keyword when case is ignored, but no configured
  keyword followed by a colon, gets one issue from the scan of the local search and none
  from the scan of the remote fetch.
\<close>

theorem scan_asymmetry:
  assumes "\<exists>k \<in> set kws. includesStr (toLowerCase l) (toLowerCase k)"
      and "\<forall>k \<in> set kws. \<not> includesStr l (k @ '':'')"
  shows "localLines owner repoName branch pth kws i (l # rest)
           = mkIssue owner repoName branch pth i l rest
             # localLines owner repoName branch pth kws (i + 1) rest
         \<and> remoteLines owner repoName branch pth kws i (l # rest)
           = remoteLines owner repoName branch pth kws (i + 1) rest"
proof -
  from assms(2) have "filter (\<lambda>k. includesStr l (k @ '':'')) kws = []"
    by (simp add: filter_empty_conv)
  with assms(1) show ?thesis
    by (simp add: localKeywords_first remoteKeywords_replicate)
qed

theorem scan_asymmetry_witness:
  "localLines ''octo'' ''demo'' ''main'' ''src/a.py'' [''TODO''] 0 [''todo fix parser'']
     = [\<lparr>issueFile = ''src/a.py'', issueLine = 1, issueContent = ''todo fix parser'',
         issueUrl = ''https://github.com/octo/demo/blob/main/src/a.py#L1''\<rparr>]
   \<and> remoteLines ''octo'' ''demo'' ''main'' ''src/a.py'' [''TODO''] 0 [''todo fix parser''] = []"
proof -
  have h1: "\<exists>k \<in> set [''TODO'']. includesStr (toLowerCase ''todo fix parser'') (toLowerCase k)"
    by (simp add: toLowerCase_def lowerChar_def upperChars_def lowerChars_def startsWith_def)
  have h2: "\<forall>k \<in> set [''TODO'']. \<not> includesStr ''todo fix parser'' (k @ '':'')"
    by (simp add: startsWith_def)
  show ?thesis
    using scan_asymmetry [OF h1 h2, where owner = "''octo''" and repoName = "''demo''"
        and branch = "''main''" and pth = "''src/a.py''" and i = 0 and rest = "[]"]
    by (simp add: mkIssue_def nextLine_def trim_def isSpace_def natToString.simps)
qed

text \<open>
  C9.  The scan of the local search gives a line one issue if some configured keyword occurs
  in it and none otherwise; the snippet is the trimmed line, followed by a newline and the
  trimmed next line if there is a next line; the issues of one file have different line
  numbers; and the keywords after the first one that matches are not looked at.
\<close>

theorem local_one_issue_per_line:
  "localLines owner repoName branch pth kws i (l # rest)
     = (if \<exists>k \<in> set kws. includesStr (toLowerCase l) (toLowerCase k)
        then [mkIssue owner repoName branch pth i l rest] else [])
       @ localLines owner repoName branch pth kws (i + 1) rest
   \<and> issueContent (mkIssue owner repoName branch pth i l rest)
     = (case rest of [] \<Rightarrow> trim l | next # _ \<Rightarrow> trim l @ [CHR 0x0A] @ trim next)
   \<and> issueLine (mkIssue owner repoName branch pth i l rest) = i + 1
   \<and> distinct (map issueLine (scanFile e searchDir owner repoName branch kws f))
   \<and> (includesStr (toLowerCase l) (toLowerCase k)
        \<longrightarrow> localKeywords iss l (ks @ k # ks') = localKeywords iss l (ks @ [k]))"
  by (simp add: localKeywords_first scanFile_distinct mkIssue_def nextLine_def split: list.split)

theorem local_one_issue_per_line_witness:
  "localLines ''octo'' ''demo'' ''main'' ''a.py'' [''TODO'', ''FIXME''] 0
     [''  // todo: fixme later '', ''  return None''] =
     [\<lparr>issueFile = ''a.py'', issueLine = 1,
       issueContent = ''// todo: fixme later'' @ [CHR 0x0A] @ ''return None'',
       issueUrl = ''https://github.com/octo/demo/blob/main/a.py#L1''\<rparr>]
   \<and> localKeywords (mkIssue ''octo'' ''demo'' ''main'' ''a.py'' 0 ''a fixme'' []) ''a fixme''
         ([''TODO''] @ ''FIXME'' # [''fix''])
       = localKeywords (mkIssue ''octo'' ''demo'' ''main'' ''a.py'' 0 ''a fixme'' []) ''a fixme''
           ([''TODO''] @ [''FIXME''])"
proof -
  have h: "includesStr (toLowerCase ''a fixme'') (toLowerCase ''FIXME'')"
    by (simp add: toLowerCase_def lowerChar_def upperChars_def lowerChars_def startsWith_def)
  have low: "toLowerCase ''  // todo: fixme later '' = ''  // todo: fixme later ''"
    "toLowerCase ''  return None'' = ''  return none''"
    "toLowerCase ''TODO'' = ''todo''" "toLowerCase ''FIXME'' = ''fixme''"
    by (simp_all add: toLowerCase_def lowerChar_def upperChars_def lowerChars_def)
  show ?thesis
    using local_one_issue_per_line [where owner = "''octo''" and repoName = "''demo''"
        and branch = "''main''" and pth = "''a.py''" and kws = "[''TODO'', ''FIXME'']"
        and i = 0 and l = "''  // todo: fixme later ''" and rest = "[''  return None'']"]
      local_one_issue_per_line [where l = "''a fixme''" and k = "''FIXME''"
        and iss = "mkIssue ''octo'' ''demo'' ''main'' ''a.py'' 0 ''a fixme'' []"
        and ks = "[''TODO'']" and ks' = "[''fix'']"] h
    by (simp add: low mkIssue_def nextLine_def trim_def isSpace_def natToString.simps
          startsWith_def)
qed

text \<open>
  C10.  The scan of the remote fetch gives a line one issue for every configured keyword
  that occurs in it with a colon after it, and these issues are the same record: file, line
  number, snippet and url.
\<close>

theorem remote_one_issue_per_keyword:
  "remoteLines owner repoName branch pth kws i (l # rest)
     = replicate (length (filter (\<lambda>k. includesStr l (k @ '':'')) kws))
         (mkIssue owner repoName branch pth i l rest)
       @ remoteLines owner repoName branch pth kws (i + 1) rest"
  by (simp add: remoteKeywords_replicate)

theorem remote_one_issue_per_keyword_witness:
  "remoteLines ''octo'' ''demo'' ''main'' ''src/a.py'' [''TODO'', ''FIXME''] 0
     [''# TODO: FIXME: parser''] =
     [\<lparr>issueFile = ''src/a.py'', issueLine = 1, issueContent = ''# TODO: FIXME: parser'',
       issueUrl = ''https://github.com/octo/demo/blob/main/src/a.py#L1''\<rparr>,
      \<lparr>issueFile = ''src/a.py'', issueLine = 1, issueContent = ''# TODO: FIXME: parser'',
       issueUrl = ''https://github.com/octo/demo/blob/main/src/a.py#L1''\<rparr>]"
  using remote_one_issue_per_keyword [where owner = "''octo''" and repoName = "''demo''"
      and branch = "''main''" and pth = "''src/a.py''" and kws = "[''TODO'', ''FIXME'']"
      and i = 0 and l = "''# TODO: FIXME: parser''" and rest = "[]"]
  by (simp add: mkIssue_def nextLine_def trim_def isSpace_def natToString.simps startsWith_def)

section \<open>The format of the repository identifier\<close>

lemma split_on_unfold:
  "split_on c x = takeWhile (\<lambda>a. a \<noteq> c) x
     # (case dropWhile (\<lambda>a. a \<noteq> c) x of [] \<Rightarrow> [] | s # r \<Rightarrow> split_on c r)"
  by (induction x) (auto simp: Let_def split: list.splits)

lemma element_split_on_0: "element (split_on c x) 0 = Some (takeWhile (\<lambda>a. a \<noteq> c) x)"
  by (subst split_on_unfold) (simp add: element_def)

lemma element_split_on_1:
  "element (split_on c x) (Suc 0) =
     (case dropWhile (\<lambda>a. a \<noteq> c) x of [] \<Rightarrow> None
      | s # r \<Rightarrow> Some (takeWhile (\<lambda>a. a \<noteq> c) r))"
proof (cases "dropWhile (\<lambda>a. a \<noteq> c) x")
  case Nil
  have "split_on c x = [takeWhile (\<lambda>a. a \<noteq> c) x]"
    by (subst split_on_unfold) (simp only: Nil list.case)
  then show ?thesis
    by (simp only: Nil list.case element_def) simp
next
  case (Cons s r)
  have "split_on c x = takeWhile (\<lambda>a. a \<noteq> c) x # split_on c r"
    by (subst split_on_unfold) (simp only: Cons list.case)
  moreover have "\<exists>rs. split_on c r = takeWhile (\<lambda>a. a \<noteq> c) r # rs"
    by (subst split_on_unfold) simp
  ultimately show ?thesis
    by (auto simp only: Cons list.case element_def) simp
qed

lemma invalid_repo_falsy:
  assumes "takeWhile (\<lambda>c. c \<noteq> CHR ''/'') repo = []
           \<or> takeWhile (\<lambda>c. c \<noteq> CHR ''/'') (drop 1 (dropWhile (\<lambda>c. c \<noteq> CHR ''/'') repo)) = []"
  shows "falsy (element (split_on (CHR ''/'') repo) 0) \<or> falsy (element (split_on (CHR ''/'') repo) 1)"
  using assms
  by (auto simp: falsy_def element_split_on_0 element_split_on_1 drop_Suc split: list.splits)

text \<open>
  C1, as the code has it.  If the text before the first \<open>/\<close> of the identifier is empty, or
  the text between the first \<open>/\<close> and the next one (or the end) is empty or missing, then
  \<open>fetchIssuesLocally\<close> fails with the error of the format and leaves the plugin and the
  world as they were: no request has been issued.  \<open>fetchIssues\<close> issues no request either,
  but it looks at the cache first: it fails with the rate limit error if the repository is
  marked as rate limited, returns the cached payload if the key of the request has an
  unexpired entry, and fails with the error of the format otherwise.
\<close>

theorem invalid_format_before_network:
  assumes "takeWhile (\<lambda>c. c \<noteq> CHR ''/'') repo = []
           \<or> takeWhile (\<lambda>c. c \<noteq> CHR ''/'') (drop 1 (dropWhile (\<lambda>c. c \<noteq> CHR ''/'') repo)) = []"
  shows "fetchIssuesLocally n e p w repo kws = Some (Inl InvalidFormat, p, w)
       \<and> fetchIssues n e p w repo kws =
           Some (if rateLimited p w (''ratelimit-'' @ repo) then Inl RateLimitExceeded
                 else (case cached p w (cacheKeyOf repo kws) of
                         Some payload \<Rightarrow> Inr payload | None \<Rightarrow> Inl InvalidFormat),
                 p, w)"
proof -
  from invalid_repo_falsy [OF assms]
  have loc: "fetchIssuesLocally n e p w repo kws = Some (Inl InvalidFormat, p, w)"
    by (auto simp: fetchIssuesLocally_def Let_def)
  from invalid_repo_falsy [OF assms]
  have "fetchIssues n e p w repo kws =
           Some (if rateLimited p w (''ratelimit-'' @ repo) then Inl RateLimitExceeded
                 else (case cached p w (cacheKeyOf repo kws) of
                         Some payload \<Rightarrow> Inr payload | None \<Rightarrow> Inl InvalidFormat),
                 p, w)"
    by (auto simp: fetchIssues_def loc Let_def split: option.splits)
  with loc show ?thesis by simp
qed

theorem invalid_format_before_network_witness:
  "fetchIssuesLocally 1 demoEnv demoPlugin demoWorld ''octodemo'' [''TODO'']
     = Some (Inl InvalidFormat, demoPlugin, demoWorld)
   \<and> fetchIssues 1 demoEnv demoPlugin demoWorld ''octo/'' [''TODO'']
     = Some (Inl InvalidFormat, demoPlugin, demoWorld)"
proof -
  have h1: "takeWhile (\<lambda>c. c \<noteq> CHR ''/'') ''octodemo'' = []
            \<or> takeWhile (\<lambda>c. c \<noteq> CHR ''/'') (drop 1 (dropWhile (\<lambda>c. c \<noteq> CHR ''/'') ''octodemo'')) = []"
    by simp
  have h2: "takeWhile (\<lambda>c. c \<noteq> CHR ''/'') ''octo/'' = []
            \<or> takeWhile (\<lambda>c. c \<noteq> CHR ''/'') (drop 1 (dropWhile (\<lambda>c. c \<noteq> CHR ''/'') ''octo/'')) = []"
    by simp
  show ?thesis
    using invalid_format_before_network [OF h1, where n = 1 and e = demoEnv and p = demoPlugin
        and w = demoWorld and kws = "[''TODO'']"]
      invalid_format_before_network [OF h2, where n = 1 and e = demoEnv and p = demoPlugin
        and w = demoWorld and kws = "[''TODO'']"]
    by (simp add: rateLimited_def cached_def demoPlugin_def)
qed

text \<open>
  C1, as the spec states it, fails: \<open>a/b/c\<close> has more than one \<open>/\<close>, and both functions
  take \<open>a\<close> as the owner and \<open>b\<close> as the name and send the request for that repository.
\<close>

theorem extra_segment_counterexample:
  "fetchIssuesLocally 1 demoEnv demoPlugin demoWorld ''a/b/c'' [''TODO'']
     = Some (Inl (RequestError 404 ''Not Found''), demoPlugin,
             \<lparr>trace = [ReposGet ''a'' ''b''], time = 1, fs = [''/tmp/a-b'' \<mapsto> Dir []]\<rparr>)
   \<and> fetchIssues 1 demoEnv demoPlugin demoWorld ''a/b/c'' [''TODO'']
     = Some (Inl (RequestError 404 ''Not Found''), demoPlugin,
             \<lparr>trace = [ReposGet ''a'' ''b''], time = 1, fs = Map.empty\<rparr>)"
  by (simp add: fetchIssuesLocally_def fetchIssues_def localSearch_def remoteSearch_def
        ensureDir_def repoDirOf_def
        rateLimited_def cached_def cacheKeyOf_def element_def falsy_def request_def
        demoEnv_def demoPlugin_def demoWorld_def demoSettings_def Let_def)

section \<open>The comment of the keywords line in \<open>src/main.ts\<close>\<close>

text \<open>
  In the variant that removes the comment, every keyword that a block sets is free of
  \<open>#\<close>.
\<close>

lemma set_trim: "set (trim x) \<subseteq> set x"
  by (auto simp: trim_def dest!: set_dropWhileD)

lemma split_ws_nonempty: "split_ws x \<noteq> []"
  by (induction x rule: split_ws.induct) (auto simp: Let_def)

lemma split_ws_parts: "k \<in> set (split_ws x) \<Longrightarrow> set k \<subseteq> set x"
proof (induction x arbitrary: k rule: split_ws.induct)
  case 1
  then show ?case by simp
next
  case (2 x xs)
  show ?case
  proof (cases "isSpace x")
    case True
    with 2 show ?thesis by (auto dest!: set_dropWhileD)
  next
    case False
    with 2(3) have "k = x # hd (split_ws xs) \<or> k \<in> set (tl (split_ws xs))"
      by (simp add: Let_def)
    moreover have "hd (split_ws xs) \<in> set (split_ws xs)"
      using split_ws_nonempty by simp
    moreover have "set (tl (split_ws xs)) \<subseteq> set (split_ws xs)"
      by (cases "split_ws xs") auto
    ultimately show ?thesis
      using 2(2) [OF False] by fastforce
  qed
qed

lemma hd_split_on: "hd (split_on c x) = takeWhile (\<lambda>a. a \<noteq> c) x"
  by (subst split_on_unfold) simp

lemma parseLines_main_no_comment:
  assumes "\<forall>k \<in> set (blockKeywords b). k \<in> set dflt \<or> CHR ''#'' \<notin> set k"
  shows "\<forall>k \<in> set (blockKeywords (parseLines_main b ls)). k \<in> set dflt \<or> CHR ''#'' \<notin> set k"
  using assms
proof (induction ls arbitrary: b)
  case Nil
  then show ?case by simp
next
  case (Cons l ls)
  have "CHR ''#'' \<notin> set k"
    if "k \<in> set (split_ws (trim (hd (split_on (CHR ''#'') (trim (drop 9 l))))))" for k
  proof -
    from that have "set k \<subseteq> set (takeWhile (\<lambda>a. a \<noteq> CHR ''#'') (trim (drop 9 l)))"
      using split_ws_parts set_trim by (fastforce simp: hd_split_on)
    then show ?thesis by (auto dest: set_takeWhileD)
  qed
  note nohash = this
  let ?b' = "if startsWith l ''repo:'' then b\<lparr>blockRepo := trim (drop 5 l)\<rparr>
             else if startsWith l ''keywords:'' then
               (let keywordString = trim (drop 9 l);
                    withoutComments = trim (hd (split_on (CHR ''#'') keywordString))
                in b\<lparr>blockKeywords := split_ws withoutComments\<rparr>)
             else b"
  have "\<forall>k \<in> set (blockKeywords ?b'). k \<in> set dflt \<or> CHR ''#'' \<notin> set k"
    using Cons.prems nohash by (auto simp: Let_def)
  from Cons.IH [OF this] show ?case by simp
qed

lemma parseBlock_main_no_comment:
  "k \<in> set (blockKeywords (parseBlock_main s source))
     \<Longrightarrow> k \<in> set (defaultKeywords s) \<or> CHR ''#'' \<notin> set k"
  using parseLines_main_no_comment [where dflt = "defaultKeywords s"
      and b = "\<lparr>blockRepo = [], blockKeywords = defaultKeywords s, blockForceApi = False\<rparr>"
      and ls = "split_on (CHR 0x0A) source"]
  by (simp add: parseBlock_main_def)

section \<open>The signature of the archive\<close>

lemma header_check:
  "(take 4 (b @ [0::byte, 0, 0, 0]) ! 0 \<noteq> 0x50 \<or> take 4 (b @ [0, 0, 0, 0]) ! 1 \<noteq> 0x4B
     \<or> take 4 (b @ [0, 0, 0, 0]) ! 2 \<noteq> 0x03 \<or> take 4 (b @ [0, 0, 0, 0]) ! 3 \<noteq> 0x04)
   = (take 4 b \<noteq> [0x50, 0x4B, 0x03, 0x04])"
proof (cases b)
  case Nil
  then show ?thesis by simp
next
  case c1: (Cons b0 r0)
  show ?thesis
  proof (cases r0)
    case Nil
    with c1 show ?thesis by simp
  next
    case c2: (Cons b1 r1)
    show ?thesis
    proof (cases r1)
      case Nil
      with c1 c2 show ?thesis by simp
    next
      case c3: (Cons b2 r2)
      show ?thesis
      proof (cases r2)
        case Nil
        with c1 c2 c3 show ?thesis by simp
      next
        case (Cons b3 r3)
        with c1 c2 c3 show ?thesis by auto
      qed
    qed
  qed
qed

text \<open>
  C8.  When the host answers the download with status 200, \<open>downloadFile\<close> succeeds and
  leaves the body at the destination if the first four bytes of the body are
  \<open>50 4B 03 04\<close>, whatever follows them; otherwise it fails with the error of the invalid
  archive and the destination does not exist afterwards.
\<close>

theorem zip_signature_check:
  assumes "httpsGet e u (requestHeaders token) = Response r" and "statusCode r = 200"
  shows "\<exists>w'. downloadFile (Suc n) e token u dest w =
            Some (if take 4 (body r) = [0x50, 0x4B, 0x03, 0x04] then Inr ()
                  else Inl (InvalidZip ''Not a valid ZIP file (missing PK signature)''), w')
          \<and> fs w' dest = (if take 4 (body r) = [0x50, 0x4B, 0x03, 0x04]
                           then Some (File (body r)) else None)"
  using assms header_check [of "body r"]
  by (simp add: Let_def readHeader_def writeFile_def unlinkSync_def request_def)

theorem zip_signature_check_witness:
  "(\<exists>w'. downloadFile 1 demoEnv [] ''https://github.com/octo/demo/archive/main.zip''
            ''/tmp/octo-demo/demo-main.zip'' demoWorld = Some (Inr (), w')
         \<and> fs w' ''/tmp/octo-demo/demo-main.zip'' = Some (File demoArchive))
   \<and> (\<exists>w'. downloadFile 1 htmlEnv [] ''https://github.com/octo/demo/archive/main.zip''
            ''/tmp/octo-demo/demo-main.zip'' demoWorld
            = Some (Inl (InvalidZip ''Not a valid ZIP file (missing PK signature)''), w')
         \<and> fs w' ''/tmp/octo-demo/demo-main.zip'' = None)"
proof -
  have ok: "httpsGet demoEnv ''https://github.com/octo/demo/archive/main.zip'' (requestHeaders [])
              = Response \<lparr>statusCode = 200, location = None, body = demoArchive\<rparr>"
    by (simp add: demoEnv_def)
  have bad: "httpsGet htmlEnv ''https://github.com/octo/demo/archive/main.zip'' (requestHeaders [])
              = Response \<lparr>statusCode = 200, location = None, body = [0x3C, 0x68, 0x74, 0x6D, 0x6C, 0x3E]\<rparr>"
    by (simp add: htmlEnv_def)
  show ?thesis
    using zip_signature_check [OF ok, where n = 0 and dest = "''/tmp/octo-demo/demo-main.zip''"
        and w = demoWorld]
      zip_signature_check [OF bad, where n = 0 and dest = "''/tmp/octo-demo/demo-main.zip''"
        and w = demoWorld]
    by (simp add: demoArchive_def)
qed

text \<open>Whatever the redirects, a download that succeeds leaves a file with the signature.\<close>

lemma downloadFile_success:
  assumes "downloadFile n e token u dest w = Some (Inr ok, w')"
  shows "\<exists>bytes. fs w' dest = Some (File bytes) \<and> take 4 bytes = [0x50, 0x4B, 0x03, 0x04]"
  using assms
proof (induction n arbitrary: u w)
  case 0
  then show ?case by simp
next
  case (Suc n)
  let ?w2 = "request e (HttpsGet u (requestHeaders token)) (writeFile dest [] w)"
  show ?case
  proof (cases "httpsGet e u (requestHeaders token)")
    case (Throws err)
    with Suc.prems show ?thesis by (simp add: Let_def)
  next
    case (NetworkError err)
    with Suc.prems show ?thesis by (simp add: Let_def)
  next
    case (Response r)
    show ?thesis
    proof (cases "(statusCode r = 302 \<or> statusCode r = 301) \<and> \<not> falsy (location r)")
      case True
      with Suc.prems Response
      have "downloadFile n e token (the (location r)) dest ?w2 = Some (Inr ok, w')"
        by (simp add: Let_def)
      then show ?thesis by (rule Suc.IH)
    next
      case False
      with Suc.prems Response header_check [of "body r"] show ?thesis
        by (auto simp: Let_def unlinkSync_def writeFile_def readHeader_def request_def
                 split: if_splits)
    qed
  qed
qed

section \<open>The requests of a search\<close>

lemma quiet_refl [simp]: "quiet w w"
  by (simp add: quiet_def)


lemma trace_simps [simp]:
  "trace (request e ev w) = trace w @ [ev]"
  "trace (writeFile d b w) = trace w"
  "trace (unlinkSync d w) = trace w"
  by (simp_all add: request_def writeFile_def unlinkSync_def)

lemma quiet_request [simp]: "\<not> isReposGet ev \<Longrightarrow> quiet w (request e ev w)"
  by (simp add: quiet_def request_def)

lemma quiet_fs [simp]: "quiet w (writeFile d b w)" "quiet w (unlinkSync d w)" "quiet w (w\<lparr>fs := f\<rparr>)"
  by (simp_all add: quiet_def writeFile_def unlinkSync_def)

lemma quiet_count: "quiet w w' \<Longrightarrow> filter isReposGet (drop (length (trace w)) (trace w')) = []"
  by (auto simp: quiet_def)






lemma ensureSnapshot_cache:
  "ensureSnapshot n e p w repo owner repoName branch repoDir commit = Some (res, p', w')
     \<Longrightarrow> cache p' = cache p \<and> settings p' = settings p"
  by (auto simp: ensureSnapshot_def Let_def
           split: if_splits option.splits sum.splits prod.splits)


lemma ensureDir_trace: "ensureDir e d w = Inr w0 \<Longrightarrow> trace w0 = trace w"
  by (auto simp: ensureDir_def split: if_splits sum.splits)


lemma localSearch_cache:
  "localSearch n e p w repo owner repoName kws = Some (res, p', w')
     \<Longrightarrow> cache p' = cache p \<and> settings p' = settings p"
  by (auto simp: localSearch_def Let_def repoDirOf_def
           split: if_splits option.splits sum.splits prod.splits
           dest!: ensureSnapshot_cache)







section \<open>Searches that return\<close>








lemma fetchIssues_flagged:
  assumes "rateLimited p w (''ratelimit-'' @ repo)"
      and "fetchIssuesLocally n e p w repo kws = Some (res, p1, w1)"
  shows "fetchIssues n e p w repo kws
           = Some (case res of Inl localError \<Rightarrow> Inl RateLimitExceeded | Inr found \<Rightarrow> Inr found,
                   p1, w1)"
  using assms by (simp add: fetchIssues_def Let_def split: sum.splits)

section \<open>The snapshot of an unchanged repository\<close>

text \<open>
  C6.  For a well-formed identifier, if the repo cache has a record for the repository whose
  commit is the one that the branch request returns, then \<open>fetchIssuesLocally\<close> returns,
  leaves the repo cache as it was, and has issued the request for the repository and the
  request for the branch and nothing else (nothing at all if it answered from the result
  cache or could not create the directory of the repository): no download and no
  extraction.
\<close>

theorem unchanged_snapshot_no_download:
  assumes "split_on (CHR ''/'') repo = owner # repoName # others"
      and "owner \<noteq> []" and "repoName \<noteq> []"
      and "reposGet e owner repoName = Inr branch"
      and "getBranch e owner repoName branch = Inr commit"
      and "repoCache p repo = Some rc" and "latestCommit rc = commit"
  shows "\<exists>res p' w'. fetchIssuesLocally n e p w repo kws = Some (res, p', w')
           \<and> repoCache p' = repoCache p
           \<and> trace w' = trace w @
               (if cached p w (cacheKeyOf repo kws) = None
                   \<and> (\<exists>w0. ensureDir e (repoDirOf e p owner repoName) w = Inr w0)
                then [ReposGet owner repoName, GetBranch owner repoName branch] else [])"
proof (cases "ensureDir e (repoDirOf e p owner repoName) w")
  case (Inl err)
  with assms show ?thesis
    by (auto simp: fetchIssuesLocally_def localSearch_def element_def falsy_def Let_def
             split: option.splits)
next
  case (Inr w0)
  with assms ensureDir_trace [OF Inr] show ?thesis
    by (auto simp: fetchIssuesLocally_def localSearch_def ensureSnapshot_def store_def
                   element_def falsy_def Let_def
             split: option.splits sum.splits)
qed

theorem unchanged_snapshot_no_download_witness:
  "\<exists>res p' w'. fetchIssuesLocally 0 demoEnv snapshotDemo demoWorld ''octo/demo'' [''TODO'']
        = Some (res, p', w')
     \<and> repoCache p' = repoCache snapshotDemo
     \<and> trace w' = [ReposGet ''octo'' ''demo'', GetBranch ''octo'' ''demo'' ''main'']"
proof -
  have h1: "split_on (CHR ''/'') ''octo/demo'' = ''octo'' # ''demo'' # []" by simp
  have h2: "reposGet demoEnv ''octo'' ''demo'' = Inr ''main''" by (simp add: demoEnv_def)
  have h3: "getBranch demoEnv ''octo'' ''demo'' ''main'' = Inr ''c0ffee''" by (simp add: demoEnv_def)
  have h4: "repoCache snapshotDemo ''octo/demo'' = Some
     \<lparr>latestCommit = ''c0ffee'', downloadPath = ''/tmp/octo-demo/demo-main.zip'',
      extractPath = ''/tmp/octo-demo/demo-main'', repoTimestamp = 0\<rparr>"
    by (simp add: snapshotDemo_def)
  have c: "cached snapshotDemo demoWorld (cacheKeyOf ''octo/demo'' [''TODO'']) = None"
    by (simp add: cached_def snapshotDemo_def demoPlugin_def)
  have d: "\<exists>w0. ensureDir demoEnv (repoDirOf demoEnv snapshotDemo ''octo'' ''demo'') demoWorld = Inr w0"
    by (simp add: ensureDir_def demoEnv_def)
  have t: "trace demoWorld = []"
    by (simp add: demoWorld_def)
  show ?thesis
    using unchanged_snapshot_no_download [OF h1 _ _ h2 h3 h4, where n = 0 and w = demoWorld
        and kws = "[''TODO'']"] d
    by (simp add: c t)
qed

text \<open>
  Two acquisitions of the demo repository in a row, the second one with other keywords so
  that the result cache does not answer: the first downloads and extracts the archive, the
  second sends the two requests to the API and scans the snapshot that is there.
\<close>

lemma repeated_acquisition_downloads_once:
  "(case fetchIssuesLocally 1 demoEnv demoPlugin demoWorld ''octo/demo'' [''TODO''] of
      None \<Rightarrow> False
    | Some (r1, p1, w1) \<Rightarrow>
        r1 = Inr (Issues [\<lparr>issueFile = ''a.py'', issueLine = 1, issueContent = ''todo fix parser'',
                           issueUrl = ''https://github.com/octo/demo/blob/main/a.py#L1''\<rparr>])
        \<and> trace w1 = [ReposGet ''octo'' ''demo'', GetBranch ''octo'' ''demo'' ''main'',
                       HttpsGet ''https://github.com/octo/demo/archive/main.zip''
                         [(''User-Agent'', ''For-Fix-Sake-Obsidian-Plugin'')],
                       ExtractAllTo ''/tmp/octo-demo/demo-main.zip'' ''/tmp/octo-demo'']
        \<and> (case fetchIssuesLocally 0 demoEnv p1 w1 ''octo/demo'' [''FIXME''] of
              None \<Rightarrow> False
            | Some (r2, p2, w2) \<Rightarrow>
                r2 = Inr (Issues [])
                \<and> trace w2 = trace w1 @ [ReposGet ''octo'' ''demo'',
                                          GetBranch ''octo'' ''demo'' ''main'']))"
  by (simp add: fetchIssuesLocally_def localSearch_def ensureSnapshot_def scanSnapshot_def
        scanFile_def extractZip_def readHeader_def requestHeaders_def writeFile_def
        unlinkSync_def cached_def unexpired_def store_def ensureDir_def repoDirOf_def
        archiveUrl_def cacheKeyOf_def element_def falsy_def request_def
        demoEnv_def demoPlugin_def demoWorld_def demoSettings_def demoArchive_def demoBytes_def
        isControl_def toLowerCase_def lowerChar_def upperChars_def
        lowerChars_def mkIssue_def nextLine_def trim_def isSpace_def startsWith_def
        natToString.simps Let_def)

section \<open>Expired entries of the result cache\<close>







section \<open>The mark of a rate limited repository\<close>

text \<open>
  C2 fails in the code.  \<open>fetchIssues\<close> reads the entry \<open>ratelimit-<repo>\<close>, but no
  statement writes it: when the request for the repository is refused with status 403, the
  error is thrown, the cache stays empty, and the next call sends the same request again.
\<close>

theorem rate_limit_not_recorded:
  "fetchIssues 1 limitedEnv demoPlugin demoWorld ''octo/demo'' [''TODO'']
     = Some (Inl (RequestError 403 ''API rate limit exceeded''), demoPlugin,
             \<lparr>trace = [ReposGet ''octo'' ''demo''], time = 1, fs = Map.empty\<rparr>)
   \<and> cache demoPlugin ''ratelimit-octo/demo'' = None
   \<and> fetchIssues 1 limitedEnv demoPlugin
        \<lparr>trace = [ReposGet ''octo'' ''demo''], time = 1, fs = Map.empty\<rparr> ''octo/demo'' [''TODO'']
     = Some (Inl (RequestError 403 ''API rate limit exceeded''), demoPlugin,
             \<lparr>trace = [ReposGet ''octo'' ''demo'', ReposGet ''octo'' ''demo''], time = 2,
              fs = Map.empty\<rparr>)"
  by (simp add: fetchIssues_def remoteSearch_def
        rateLimited_def cached_def cacheKeyOf_def element_def falsy_def request_def
        limitedEnv_def demoEnv_def demoPlugin_def demoWorld_def demoSettings_def Let_def)

text \<open>No run of either function creates a flag entry.\<close>

lemma fetchIssuesLocally_writes_no_flag:
  assumes "fetchIssuesLocally n e p w repo kws = Some (res, p', w')"
      and "cache p' k = Some entry" and "data entry = Flag b"
  shows "cache p k = Some entry"
  using assms
  by (auto simp: fetchIssuesLocally_def Let_def store_def
           split: option.splits sum.splits prod.splits if_splits dest!: localSearch_cache)

lemma fetchIssues_writes_no_flag:
  assumes "fetchIssues n e p w repo kws = Some (res, p', w')"
      and "cache p' k = Some entry" and "data entry = Flag b"
  shows "cache p k = Some entry"
proof (cases "rateLimited p w (''ratelimit-'' @ repo)")
  case True
  with assms(1) obtain res0 where "fetchIssuesLocally n e p w repo kws = Some (res0, p', w')"
    by (auto simp: fetchIssues_def Let_def split: option.splits sum.splits prod.splits)
  from fetchIssuesLocally_writes_no_flag [OF this assms(2,3)] show ?thesis .
next
  case False
  with assms show ?thesis
    by (auto simp: fetchIssues_def Let_def store_def
             split: option.splits sum.splits prod.splits if_splits)
qed

end
